theory Spec2Isabelle
  imports Complex_Main
begin

section \<open>Cart line item (src/app/components/cart/CartLineItem.tsx, lines 1-171)\<close>

subsection \<open>Data\<close>

text \<open>
  The quantities of the storefront API are GraphQL integers, so a TypeScript
  \<^verbatim>\<open>number\<close> that holds a quantity is an \<^typ>\<open>int\<close>. A value that may be
  \<^verbatim>\<open>undefined\<close> or \<^verbatim>\<open>null\<close> is an \<^typ>\<open>'a option\<close>, with \<^term>\<open>None\<close>
  for both.
\<close>

record SelectedOption =
  option_name :: string
  option_value :: string

text \<open>The fields of \<^verbatim>\<open>line.merchandise\<close> that the component reads.\<close>

record Merchandise =
  quantityAvailable :: "int option"
  merchandise_title :: string
  product_title :: string
  product_handle :: string
  selectedOptions :: "SelectedOption list"

text \<open>
  \<^verbatim>\<open>type CartLine = OptimisticCartLine<CartApiQueryFragment>\<close>: \<^verbatim>\<open>isOptimistic\<close>
  is an optional boolean, and the component itself tests
  \<^verbatim>\<open>typeof line.quantity === "undefined"\<close>, so both are optional here.
\<close>

record CartLine =
  lineId :: string
  quantity :: "int option"
  isOptimistic :: "bool option"
  merchandise :: Merchandise

record CartLineUpdateInput =
  input_id :: string
  input_quantity :: int

text \<open>
  \<^verbatim>\<open>CartForm.ACTIONS.LinesUpdate\<close> with \<^verbatim>\<open>inputs={{ lines }}\<close> and
  \<^verbatim>\<open>CartForm.ACTIONS.LinesRemove\<close> with \<^verbatim>\<open>inputs={{ lineIds }}\<close>.
\<close>

datatype CartFormAction =
  LinesUpdate "CartLineUpdateInput list"
| LinesRemove "string list"

text \<open>
  A rendered \<^verbatim>\<open><CartForm>\<close> around one \<^verbatim>\<open><Button>\<close>: the route and action of the
  form, and the attributes of the button (the remove button has no name, value or
  aria-label).
\<close>

record Control =
  form_route :: string
  form_action :: CartFormAction
  button_name :: "string option"
  button_value :: "int option"
  button_ariaLabel :: "string option"
  button_disabled :: bool

text \<open>The request a control's form posts when its button is activated.\<close>

record MutationRequest =
  request_route :: string
  request_action :: CartFormAction

definition submit :: "Control \<Rightarrow> MutationRequest" where
  "submit c = \<lparr>request_route = form_route c, request_action = form_action c\<rparr>"

text \<open>
  The element \<^verbatim>\<open>CartLineQuantity\<close> returns when it does not return \<^verbatim>\<open>null\<close>: the
  decrease button, the quantity text, the increase button, the remove button.
\<close>

record QuantityCluster =
  decrease :: Control
  quantity_text :: int
  increase :: Control
  remove_control :: Control

subsection \<open>JavaScript primitives\<close>

text \<open>
  \<^verbatim>\<open>Number(x.toFixed(0))\<close>: \<^verbatim>\<open>toFixed(0)\<close> writes the integer nearest to \<^verbatim>\<open>x\<close>
  (of two equally near ones, the one farther from zero) in decimal digits, and
  \<^verbatim>\<open>Number\<close> reads it back.
\<close>

definition toFixed0 :: "rat \<Rightarrow> int" where
  "toFixed0 x = (if x < 0 then - \<lfloor>- x + 1 / 2\<rfloor> else \<lfloor>x + 1 / 2\<rfloor>)"

text \<open>Truthiness of a \<^verbatim>\<open>Maybe<number>\<close>: \<^verbatim>\<open>undefined\<close>, \<^verbatim>\<open>null\<close> and \<^verbatim>\<open>0\<close> are falsy.\<close>

fun truthy_number :: "int option \<Rightarrow> bool" where
  "truthy_number None = False"
| "truthy_number (Some n) = (n \<noteq> 0)"

text \<open>\<^verbatim>\<open>!!isOptimistic\<close> on an optional boolean.\<close>

fun double_bang :: "bool option \<Rightarrow> bool" where
  "double_bang None = False"
| "double_bang (Some b) = b"

subsection \<open>Components\<close>

definition CartLineRemoveButton :: "string list \<Rightarrow> bool \<Rightarrow> Control" where
  "CartLineRemoveButton lineIds disabled =
     \<lparr>form_route = ''/cart'',
      form_action = LinesRemove lineIds,
      button_name = None,
      button_value = None,
      button_ariaLabel = None,
      button_disabled = disabled\<rparr>"

definition CartLineUpdateButton ::
  "string \<Rightarrow> string \<Rightarrow> int \<Rightarrow> bool \<Rightarrow> CartLineUpdateInput list \<Rightarrow> Control" where
  "CartLineUpdateButton name ariaLabel val disabled lines =
     \<lparr>form_route = ''/cart'',
      form_action = LinesUpdate lines,
      button_name = Some name,
      button_value = Some val,
      button_ariaLabel = Some ariaLabel,
      button_disabled = disabled\<rparr>"

definition prevQuantity :: "int \<Rightarrow> int" where
  "prevQuantity q = toFixed0 (of_int (max 0 (q - 1)))"

definition nextQuantity :: "int \<Rightarrow> int" where
  "nextQuantity q = toFixed0 (of_int (q + 1))"

definition isDecreaseDisabled :: "int \<Rightarrow> bool option \<Rightarrow> bool" where
  "isDecreaseDisabled q opt = (q \<le> 1 \<or> double_bang opt)"

text \<open>
  \<^verbatim>\<open>quantityAvailable ? nextQuantity > quantityAvailable : !!isOptimistic\<close>
\<close>

definition isIncreaseDisabled :: "int \<Rightarrow> int option \<Rightarrow> bool option \<Rightarrow> bool" where
  "isIncreaseDisabled q qa opt =
     (if truthy_number qa then nextQuantity q > the qa else double_bang opt)"

text \<open>
  The first argument is \<^term>\<open>None\<close> for a missing line (\<^verbatim>\<open>!line\<close>); the second is
  the \<^verbatim>\<open>quantityAvailable\<close> prop.
\<close>

definition CartLineQuantity :: "CartLine option \<Rightarrow> int option \<Rightarrow> QuantityCluster option" where
  "CartLineQuantity line qa =
     (case line of
        None \<Rightarrow> None
      | Some l \<Rightarrow>
          (case quantity l of
             None \<Rightarrow> None
           | Some q \<Rightarrow>
               Some \<lparr>decrease =
                       CartLineUpdateButton ''decrease-quantity'' ''Decrease quantity''
                         (prevQuantity q) (isDecreaseDisabled q (isOptimistic l))
                         [\<lparr>input_id = lineId l, input_quantity = prevQuantity q\<rparr>],
                     quantity_text = q,
                     increase =
                       CartLineUpdateButton ''increase-quantity'' ''Increase quantity''
                         (nextQuantity q) (isIncreaseDisabled q qa (isOptimistic l))
                         [\<lparr>input_id = lineId l, input_quantity = nextQuantity q\<rparr>],
                     remove_control =
                       CartLineRemoveButton [lineId l] (double_bang (isOptimistic l))\<rparr>))"

text \<open>
  The children of the options container of \<^verbatim>\<open>CartLineItem\<close>:
  \<^verbatim>\<open>selectedOptions.map(option => option.name !== "Title" ? <div ..> : null)\<close>.
  A rendered option is the pair of the texts it shows; \<^verbatim>\<open>null\<close> renders nothing.
\<close>

definition renderSelectedOptions :: "SelectedOption list \<Rightarrow> (string \<times> string) option list" where
  "renderSelectedOptions opts =
     map (\<lambda>opt. if option_name opt \<noteq> ''Title''
                then Some (option_name opt, option_value opt) else None) opts"

text \<open>The elements that reach the page: the children that are not \<^verbatim>\<open>null\<close>.\<close>

definition renderedOptions :: "SelectedOption list \<Rightarrow> (string \<times> string) list" where
  "renderedOptions opts = List.map_filter (\<lambda>x. x) (renderSelectedOptions opts)"

text \<open>
  What \<^verbatim>\<open>CartLineItem\<close> renders of a line, as far as it depends on the line's data:
  the card's key, the product title of the link, the option rows and the quantity
  cluster (to which it passes \<^verbatim>\<open>merchandise.quantityAvailable\<close>).
\<close>

record CartLineItemView =
  view_key :: string
  view_title :: string
  view_options :: "(string \<times> string) list"
  view_quantity :: "QuantityCluster option"

definition CartLineItem :: "CartLine \<Rightarrow> CartLineItemView" where
  "CartLineItem line =
     \<lparr>view_key = lineId line,
      view_title = product_title (merchandise line),
      view_options = renderedOptions (selectedOptions (merchandise line)),
      view_quantity = CartLineQuantity (Some line) (quantityAvailable (merchandise line))\<rparr>"

section \<open>Product page loader (same file, lines 172-440)\<close>

subsection \<open>Data\<close>

text \<open>
  What an \<^verbatim>\<open>async\<close> function throws or a promise rejects with:
  \<^verbatim>\<open>new Error(message)\<close> or \<^verbatim>\<open>new Response(null, { status })\<close>.
\<close>

datatype thrown = Error string | Response nat

record Product =
  product_id :: string
  title :: string
  handle :: string

text \<open>
  The data of \<^verbatim>\<open>PRODUCT_QUERY\<close>: \<^verbatim>\<open>product\<close> is \<^verbatim>\<open>null\<close> when no product has
  the handle; \<^verbatim>\<open>shop.primaryDomain.url\<close>.
\<close>

record ProductQueryData =
  product :: "Product option"
  shop_primaryDomain_url :: string

text \<open>A query document with the variables it is sent with.\<close>

datatype query =
  PRODUCT_QUERY string "SelectedOption list"
| RECOMMENDED_PRODUCTS_QUERY

text \<open>
  The storefront client is the environment: what it answers to each query, either a
  rejection or the data.
\<close>

record Storefront =
  product_response :: "string \<Rightarrow> SelectedOption list \<Rightarrow> thrown + ProductQueryData"
  recommended_response :: "thrown + Product list"

text \<open>
  \<^verbatim>\<open>LoaderFunctionArgs\<close>: \<^verbatim>\<open>params.handle\<close>, \<^verbatim>\<open>context.storefront\<close>, and of the
  request what \<^verbatim>\<open>getSelectedProductOptions(request)\<close> reads from it.
\<close>

record LoaderFunctionArgs =
  params_handle :: "string option"
  context_storefront :: Storefront
  request_selectedOptions :: "SelectedOption list"

text \<open>
  A promise is the query it comes from, the outcome it settles to, and the lines its
  handlers write with \<^verbatim>\<open>console.error\<close> when it settles.
\<close>

record 'a promise =
  origin :: query
  outcome :: "thrown + 'a"
  console :: "thrown list"

text \<open>
  The loader's effects, in program order: a query handed to the storefront client, and
  the suspension of the loader on a promise.
\<close>

datatype event = Issued query | Awaited query

datatype payload_value =
  ProductValue Product
| StringValue string
| PromiseValue "Product list option promise"

type_synonym payload = "string \<rightharpoonup> payload_value"

text \<open>\<^verbatim>\<open>defer(data)\<close>: a response with status 200 that streams \<^verbatim>\<open>data\<close>.\<close>

record DeferredResponse =
  response_status :: nat
  response_data :: payload

definition defer_data :: "payload \<Rightarrow> DeferredResponse" where
  "defer_data d = \<lparr>response_status = 200, response_data = d\<rparr>"

subsection \<open>Promises\<close>

text \<open>\<^verbatim>\<open>storefront.query(Q, ...)\<close> returns a promise and issues the request.\<close>

definition query_product ::
  "Storefront \<Rightarrow> string \<Rightarrow> SelectedOption list \<Rightarrow> ProductQueryData promise \<times> event list" where
  "query_product storefront h opts =
     (\<lparr>origin = PRODUCT_QUERY h opts,
       outcome = product_response storefront h opts,
       console = []\<rparr>,
      [Issued (PRODUCT_QUERY h opts)])"

definition query_recommended :: "Storefront \<Rightarrow> Product list promise \<times> event list" where
  "query_recommended storefront =
     (\<lparr>origin = RECOMMENDED_PRODUCTS_QUERY,
       outcome = recommended_response storefront,
       console = []\<rparr>,
      [Issued RECOMMENDED_PRODUCTS_QUERY])"

text \<open>
  \<^verbatim>\<open>.catch((error) => { console.error(error); return null; })\<close>: a promise that
  fulfils with the value of the first one, or, when that one rejects, writes the
  error to the console and fulfils with \<^verbatim>\<open>null\<close>.
\<close>

definition catch_log_null :: "'a promise \<Rightarrow> 'a option promise" where
  "catch_log_null p =
     (case outcome p of
        Inl error \<Rightarrow> \<lparr>origin = origin p, outcome = Inr None, console = console p @ [error]\<rparr>
      | Inr v \<Rightarrow> \<lparr>origin = origin p, outcome = Inr (Some v), console = console p\<rparr>)"

text \<open>\<^verbatim>\<open>await p\<close>: the loader suspends on \<^verbatim>\<open>p\<close> and resumes with its outcome.\<close>

definition await :: "'a promise \<Rightarrow> (thrown + 'a) \<times> event list" where
  "await p = (outcome p, [Awaited (origin p)])"

subsection \<open>The loader\<close>

definition loadDeferredData :: "LoaderFunctionArgs \<Rightarrow> payload \<times> event list" where
  "loadDeferredData args =
     (let (p, issued) = query_recommended (context_storefront args);
          recommendedProducts = catch_log_null p
      in ([''recommendedProducts'' \<mapsto> PromiseValue recommendedProducts], issued))"

text \<open>
  \<^verbatim>\<open>!handle\<close> holds for a missing and for an empty handle; \<^verbatim>\<open>!product?.id\<close> for a
  \<^verbatim>\<open>null\<close> product and for an empty id. \<^verbatim>\<open>Promise.all\<close> of the one query settles as
  the query does.
\<close>

definition loadCriticalData :: "LoaderFunctionArgs \<Rightarrow> (thrown + payload) \<times> event list" where
  "loadCriticalData args =
     (case params_handle args of
        None \<Rightarrow> (Inl (Error ''Expected product handle to be defined''), [])
      | Some h \<Rightarrow>
          if h = [] then (Inl (Error ''Expected product handle to be defined''), [])
          else
            (let (p, issued) =
                   query_product (context_storefront args) h (request_selectedOptions args);
                 (r, awaited) = await p
             in (case r of
                   Inl e \<Rightarrow> Inl e
                 | Inr d \<Rightarrow>
                     (case product d of
                        None \<Rightarrow> Inl (Response 404)
                      | Some pr \<Rightarrow>
                          if product_id pr = [] then Inl (Response 404)
                          else Inr [''product'' \<mapsto> ProductValue pr,
                                    ''storeDomain'' \<mapsto> StringValue (shop_primaryDomain_url d)]),
                 issued @ awaited)))"

text \<open>
  \<^verbatim>\<open>{ ...deferredData, ...criticalData }\<close> is the map \<open>deferredData ++ criticalData\<close>;
  an exception of the awaited \<^verbatim>\<open>loadCriticalData\<close> leaves the loader.
\<close>

definition loader :: "LoaderFunctionArgs \<Rightarrow> (thrown + DeferredResponse) \<times> event list" where
  "loader args =
     (let (deferredData, ev1) = loadDeferredData args;
          (criticalData, ev2) = loadCriticalData args
      in (case criticalData of
            Inl e \<Rightarrow> Inl e
          | Inr c \<Rightarrow> Inr (defer_data (deferredData ++ c)),
          ev1 @ ev2))"

section \<open>Sample inputs\<close>

definition sample_merchandise :: Merchandise where
  "sample_merchandise =
     \<lparr>quantityAvailable = Some 5,
      merchandise_title = ''Small / Red'',
      product_title = ''Vase'',
      product_handle = ''vase'',
      selectedOptions =
        [\<lparr>option_name = ''Title'', option_value = ''Default Title''\<rparr>,
         \<lparr>option_name = ''Size'', option_value = ''Small''\<rparr>,
         \<lparr>option_name = ''Color'', option_value = ''Red''\<rparr>]\<rparr>"

text \<open>A settled line: quantity 3, five in stock.\<close>

definition sample_line :: CartLine where
  "sample_line =
     \<lparr>lineId = ''gid://shopify/CartLine/1'',
      quantity = Some 3,
      isOptimistic = Some False,
      merchandise = sample_merchandise\<rparr>"

text \<open>A line with a mutation in flight: quantity 2, five in stock.\<close>

definition optimistic_line :: CartLine where
  "optimistic_line =
     \<lparr>lineId = ''gid://shopify/CartLine/2'',
      quantity = Some 2,
      isOptimistic = Some True,
      merchandise = sample_merchandise\<rparr>"

text \<open>A settled line of quantity 1 whose variant reports a stock of 0.\<close>

definition zero_stock_line :: CartLine where
  "zero_stock_line =
     \<lparr>lineId = ''gid://shopify/CartLine/3'',
      quantity = Some 1,
      isOptimistic = Some False,
      merchandise = sample_merchandise\<lparr>quantityAvailable := Some 0\<rparr>\<rparr>"

text \<open>A line without a quantity.\<close>

definition undefined_quantity_line :: CartLine where
  "undefined_quantity_line =
     \<lparr>lineId = ''gid://shopify/CartLine/4'',
      quantity = None,
      isOptimistic = None,
      merchandise = sample_merchandise\<rparr>"

definition vase :: Product where
  "vase = \<lparr>product_id = ''gid://shopify/Product/1'', title = ''Vase'', handle = ''vase''\<rparr>"

text \<open>
  A storefront that knows the one product and whose recommended-products query
  rejects.
\<close>

definition sample_storefront :: Storefront where
  "sample_storefront =
     \<lparr>product_response =
        (\<lambda>h opts. Inr \<lparr>product = (if h = ''vase'' then Some vase else None),
                       shop_primaryDomain_url = ''https://sanarte.example''\<rparr>),
      recommended_response = Inl (Error ''fetch failed'')\<rparr>"

definition sample_args :: "string option \<Rightarrow> LoaderFunctionArgs" where
  "sample_args h =
     \<lparr>params_handle = h,
      context_storefront = sample_storefront,
      request_selectedOptions = []\<rparr>"

subsection \<open>The claims as the specification words them\<close>

text \<open>
  The specification's rule for the increase control: disabled when quantity-available
  is known and the candidate exceeds it, or when quantity-available is unknown and the
  line is optimistic.
\<close>

definition spec_increase_disabled :: "int \<Rightarrow> int option \<Rightarrow> bool option \<Rightarrow> bool" where
  "spec_increase_disabled q qa opt =
     (case qa of
        Some a \<Rightarrow> q + 1 > a
      | None \<Rightarrow> opt = Some True)"

section \<open>Facts about the primitives\<close>

lemma toFixed0_of_int: "toFixed0 (of_int n) = n"
proof -
  have up: "\<lfloor>(of_int n :: rat) + 1 / 2\<rfloor> = n" by linarith
  have down: "\<lfloor>- (of_int n :: rat) + 1 / 2\<rfloor> = - n" by linarith
  show ?thesis unfolding toFixed0_def using up down by simp
qed

lemma toFixed0_nearest: "\<bar>of_int (toFixed0 x) - x\<bar> \<le> 1 / 2"
proof (cases "x < 0")
  case True
  define n where "n = \<lfloor>- x + 1 / 2\<rfloor>"
  have lo: "of_int n \<le> - x + 1 / 2" and hi: "- x + 1 / 2 < of_int n + 1"
    unfolding n_def by linarith+
  have "of_int (toFixed0 x) = - (of_int n :: rat)"
    using True by (simp add: toFixed0_def n_def)
  with lo hi show ?thesis by linarith
next
  case False
  define n where "n = \<lfloor>x + 1 / 2\<rfloor>"
  have lo: "of_int n \<le> x + 1 / 2" and hi: "x + 1 / 2 < of_int n + 1"
    unfolding n_def by linarith+
  have "of_int (toFixed0 x) = (of_int n :: rat)"
    using False by (simp add: toFixed0_def n_def)
  with lo hi show ?thesis by linarith
qed

lemma toFixed0_numeral: "toFixed0 (numeral k) = numeral k"
  using toFixed0_of_int [of "numeral k"] by simp

lemma prevQuantity_eq: "prevQuantity q = max 0 (q - 1)"
  unfolding prevQuantity_def by (rule toFixed0_of_int)

lemma nextQuantity_eq: "nextQuantity q = q + 1"
  unfolding nextQuantity_def by (rule toFixed0_of_int)

lemma double_bang_iff: "double_bang b \<longleftrightarrow> b = Some True"
  by (cases b) auto

lemma isIncreaseDisabled_cases:
  "isIncreaseDisabled q qa opt =
     (case qa of
        None \<Rightarrow> opt = Some True
      | Some a \<Rightarrow> if a = 0 then opt = Some True else q + 1 > a)"
  by (cases qa) (simp_all add: isIncreaseDisabled_def nextQuantity_eq double_bang_iff)

lemma CartLineQuantity_Some:
  "quantity l = Some q \<Longrightarrow>
   CartLineQuantity (Some l) qa =
     Some \<lparr>decrease =
             CartLineUpdateButton ''decrease-quantity'' ''Decrease quantity''
               (prevQuantity q) (isDecreaseDisabled q (isOptimistic l))
               [\<lparr>input_id = lineId l, input_quantity = prevQuantity q\<rparr>],
           quantity_text = q,
           increase =
             CartLineUpdateButton ''increase-quantity'' ''Increase quantity''
               (nextQuantity q) (isIncreaseDisabled q qa (isOptimistic l))
               [\<lparr>input_id = lineId l, input_quantity = nextQuantity q\<rparr>],
           remove_control =
             CartLineRemoveButton [lineId l] (double_bang (isOptimistic l))\<rparr>"
  by (simp add: CartLineQuantity_def)

lemma renderedOptions_Nil: "renderedOptions [] = []"
  by (simp add: renderedOptions_def renderSelectedOptions_def List.map_filter_simps)

lemma renderedOptions_Cons:
  "renderedOptions (opt # opts) =
     (if option_name opt \<noteq> ''Title''
      then (option_name opt, option_value opt) # renderedOptions opts
      else renderedOptions opts)"
  by (simp add: renderedOptions_def renderSelectedOptions_def List.map_filter_simps)

lemma renderedOptions_eq:
  "renderedOptions opts =
     map (\<lambda>opt. (option_name opt, option_value opt))
       (filter (\<lambda>opt. option_name opt \<noteq> ''Title'') opts)"
  by (induction opts) (simp_all add: renderedOptions_Nil renderedOptions_Cons)

lemma renderedOptions_no_Title: "(''Title'', v) \<notin> set (renderedOptions opts)"
  by (auto simp: renderedOptions_eq)

lemma renderedOptions_count:
  "option_name opt \<noteq> ''Title'' \<Longrightarrow>
   count_list (renderedOptions opts) (option_name opt, option_value opt) = count_list opts opt"
proof (induction opts)
  case Nil
  show ?case by (simp add: renderedOptions_Nil)
next
  case (Cons o' opts)
  have same: "(option_name o' = option_name opt \<and> option_value o' = option_value opt) \<longleftrightarrow> o' = opt"
    by auto
  show ?case
  proof (cases "option_name o' = ''Title''")
    case True
    with Cons.prems have "o' \<noteq> opt" by auto
    with True Cons show ?thesis by (simp add: renderedOptions_Cons)
  next
    case False
    with Cons same show ?thesis by (simp add: renderedOptions_Cons)
  qed
qed

lemma count_list_distinct: "distinct xs \<Longrightarrow> x \<in> set xs \<Longrightarrow> count_list xs x = 1"
  by (induction xs) (auto simp: count_list_0_iff)

section \<open>The quantity controls\<close>

text \<open>
  C1 (the code at the failing input). The optimistic line of quantity 2 whose variant
  has five in stock: its decrease and removal controls are disabled, its increase
  control is not.
\<close>

theorem optimistic_line_increase_enabled:
  "map_option (button_disabled \<circ> decrease) (view_quantity (CartLineItem optimistic_line))
     = Some True
   \<and> map_option (button_disabled \<circ> increase) (view_quantity (CartLineItem optimistic_line))
     = Some False
   \<and> map_option (button_disabled \<circ> remove_control)
       (view_quantity (CartLineItem optimistic_line))
     = Some True"
  by (simp add: CartLineItem_def optimistic_line_def sample_merchandise_def CartLineQuantity_def
      CartLineUpdateButton_def CartLineRemoveButton_def isDecreaseDisabled_def
      isIncreaseDisabled_def nextQuantity_eq)

text \<open>
  C2 (as stated, refuted). The line of quantity 1 whose quantity-available is known
  to be 0 and which is not optimistic: the candidate 2 exceeds 0, so the
  specification's rule disables the increase control; the code leaves it enabled.
\<close>

theorem increase_zero_stock_counterexample:
  "spec_increase_disabled 1 (Some 0) (Some False)
   \<and> \<not> isIncreaseDisabled 1 (Some 0) (Some False)
   \<and> map_option (button_disabled \<circ> increase)
       (view_quantity (CartLineItem zero_stock_line)) = Some False"
  by (simp add: spec_increase_disabled_def isIncreaseDisabled_def CartLineItem_def
      zero_stock_line_def sample_merchandise_def CartLineQuantity_def CartLineUpdateButton_def)

text \<open>
  C2 (amended). For every line with a quantity \<open>q\<close>, the increase control's candidate
  is \<open>q + 1\<close>; the control is disabled exactly when quantity-available is known and not
  0 and the candidate exceeds it, or quantity-available is unknown or 0 and the line is
  optimistic; its form submits an update of this line's quantity to the candidate.
\<close>

theorem increase_control:
  "quantity l = Some q \<Longrightarrow>
   \<exists>c. CartLineQuantity (Some l) qa = Some c
     \<and> button_value (increase c) = Some (q + 1)
     \<and> (button_disabled (increase c) \<longleftrightarrow>
          (\<exists>a. qa = Some a \<and> a \<noteq> 0 \<and> q + 1 > a)
          \<or> ((qa = None \<or> qa = Some 0) \<and> isOptimistic l = Some True))
     \<and> submit (increase c) =
         \<lparr>request_route = ''/cart'',
          request_action = LinesUpdate [\<lparr>input_id = lineId l, input_quantity = q + 1\<rparr>]\<rparr>"
  by (cases qa)
    (auto simp: CartLineQuantity_Some CartLineUpdateButton_def submit_def nextQuantity_eq
      isIncreaseDisabled_cases)

theorem increase_control_witness:
  "quantity sample_line = Some 3
   \<and> (\<exists>c. CartLineQuantity (Some sample_line) (Some 5) = Some c
        \<and> button_value (increase c) = Some 4
        \<and> \<not> button_disabled (increase c)
        \<and> submit (increase c) =
            \<lparr>request_route = ''/cart'',
             request_action =
               LinesUpdate [\<lparr>input_id = ''gid://shopify/CartLine/1'', input_quantity = 4\<rparr>]\<rparr>)"
  using increase_control [of sample_line 3 "Some 5"]
  by (simp add: sample_line_def)

text \<open>
  C3. For every line with a quantity \<open>q\<close>, the decrease control's candidate is
  \<open>max 0 (q - 1)\<close> rounded to an integer (which is \<open>max 0 (q - 1)\<close> itself); the control
  is disabled exactly when \<open>q \<le> 1\<close> or the line is optimistic; its form submits an
  update of this line's quantity to the candidate.
\<close>

theorem decrease_control:
  "quantity l = Some q \<Longrightarrow>
   \<exists>c. CartLineQuantity (Some l) qa = Some c
     \<and> button_value (decrease c) = Some (toFixed0 (of_int (max 0 (q - 1))))
     \<and> toFixed0 (of_int (max 0 (q - 1))) = max 0 (q - 1)
     \<and> (button_disabled (decrease c) \<longleftrightarrow> q \<le> 1 \<or> isOptimistic l = Some True)
     \<and> submit (decrease c) =
         \<lparr>request_route = ''/cart'',
          request_action =
            LinesUpdate [\<lparr>input_id = lineId l, input_quantity = max 0 (q - 1)\<rparr>]\<rparr>"
  by (simp add: CartLineQuantity_Some CartLineUpdateButton_def submit_def prevQuantity_def
      toFixed0_of_int isDecreaseDisabled_def double_bang_iff)

theorem decrease_control_witness:
  "quantity sample_line = Some 3
   \<and> (\<exists>c. CartLineQuantity (Some sample_line) (Some 5) = Some c
        \<and> button_value (decrease c) = Some 2
        \<and> \<not> button_disabled (decrease c)
        \<and> submit (decrease c) =
            \<lparr>request_route = ''/cart'',
             request_action =
               LinesUpdate [\<lparr>input_id = ''gid://shopify/CartLine/1'', input_quantity = 2\<rparr>]\<rparr>)"
  using decrease_control [of sample_line 3 "Some 5"]
  by (simp add: sample_line_def toFixed0_numeral)

text \<open>
  C6. For every line with a quantity, whatever the quantity and quantity-available,
  the removal control is disabled exactly when the line's optimistic flag is true, and
  its form submits a removal whose list of targets is this line's identifier alone.
\<close>

theorem remove_control:
  "quantity l = Some q \<Longrightarrow>
   \<exists>c. CartLineQuantity (Some l) qa = Some c
     \<and> (button_disabled (remove_control c) \<longleftrightarrow> isOptimistic l = Some True)
     \<and> submit (remove_control c) =
         \<lparr>request_route = ''/cart'', request_action = LinesRemove [lineId l]\<rparr>"
  by (simp add: CartLineQuantity_Some CartLineRemoveButton_def submit_def double_bang_iff)

theorem remove_control_witness:
  "quantity optimistic_line = Some 2
   \<and> (\<exists>c. CartLineQuantity (Some optimistic_line) (Some 5) = Some c
        \<and> button_disabled (remove_control c)
        \<and> submit (remove_control c) =
            \<lparr>request_route = ''/cart'',
             request_action = LinesRemove [''gid://shopify/CartLine/2'']\<rparr>)"
  using remove_control [of optimistic_line 2 "Some 5"]
  by (simp add: optimistic_line_def)

text \<open>
  C9. For a missing line and for a line whose quantity is undefined,
  \<open>CartLineQuantity\<close> returns nothing, so the line item shows no decrease, increase,
  quantity text or removal control.
\<close>

theorem no_quantity_renders_nothing:
  "CartLineQuantity None qa = None
   \<and> (quantity l = None \<longrightarrow>
        CartLineQuantity (Some l) qa = None \<and> view_quantity (CartLineItem l) = None)"
  by (simp add: CartLineQuantity_def CartLineItem_def)

theorem no_quantity_renders_nothing_witness:
  "quantity undefined_quantity_line = None
   \<and> CartLineQuantity (Some undefined_quantity_line) (Some 5) = None
   \<and> view_quantity (CartLineItem undefined_quantity_line) = None"
  using no_quantity_renders_nothing [of "Some 5" undefined_quantity_line]
  by (simp add: undefined_quantity_line_def)

text \<open>
  C10. For every line with a quantity \<open>q\<close> whose quantity-available is exactly 0, the
  increase control is disabled exactly when the line is optimistic, as it is when
  quantity-available is absent, although the candidate \<open>q + 1\<close> exceeds 0 (for every
  quantity that is not negative).
\<close>

theorem increase_zero_available:
  "quantity l = Some q \<Longrightarrow>
   \<exists>c c'. CartLineQuantity (Some l) (Some 0) = Some c
     \<and> CartLineQuantity (Some l) None = Some c'
     \<and> (button_disabled (increase c) \<longleftrightarrow> isOptimistic l = Some True)
     \<and> button_disabled (increase c) = button_disabled (increase c')
     \<and> button_value (increase c) = Some (q + 1)
     \<and> (0 \<le> q \<longrightarrow> 0 < nextQuantity q)"
  by (simp add: CartLineQuantity_Some CartLineUpdateButton_def nextQuantity_eq
      isIncreaseDisabled_cases)

theorem increase_zero_available_witness:
  "quantity zero_stock_line = Some 1
   \<and> (\<exists>c c'. CartLineQuantity (Some zero_stock_line) (Some 0) = Some c
        \<and> CartLineQuantity (Some zero_stock_line) None = Some c'
        \<and> \<not> button_disabled (increase c)
        \<and> \<not> button_disabled (increase c')
        \<and> button_value (increase c) = Some 2)
   \<and> (0::int) \<le> 1 \<and> 0 < nextQuantity 1"
  using increase_zero_available [of zero_stock_line 1]
  by (auto simp: zero_stock_line_def)

section \<open>The selected options\<close>

text \<open>
  C7. In the options list of a rendered line, no row shows an option named
  \<open>Title\<close>; every other option with a non-empty value has as many rows as it has
  entries in the line's selected options, hence exactly one when it is one of the
  selected options and these do not repeat an entry.
\<close>

theorem selected_options_rendered:
  "(''Title'', v) \<notin> set (view_options (CartLineItem line))
   \<and> (option_name opt \<noteq> ''Title'' \<and> option_value opt \<noteq> [] \<longrightarrow>
        count_list (view_options (CartLineItem line)) (option_name opt, option_value opt)
          = count_list (selectedOptions (merchandise line)) opt)
   \<and> (option_name opt \<noteq> ''Title'' \<and> option_value opt \<noteq> []
        \<and> opt \<in> set (selectedOptions (merchandise line))
        \<and> distinct (selectedOptions (merchandise line)) \<longrightarrow>
        count_list (view_options (CartLineItem line)) (option_name opt, option_value opt) = 1)"
  by (simp add: CartLineItem_def renderedOptions_no_Title renderedOptions_count
      count_list_distinct)

theorem selected_options_rendered_witness:
  "(''Title'', ''Default Title'') \<notin> set (view_options (CartLineItem sample_line))
   \<and> count_list (view_options (CartLineItem sample_line)) (''Size'', ''Small'') = 1
   \<and> view_options (CartLineItem sample_line) = [(''Size'', ''Small''), (''Color'', ''Red'')]"
  using selected_options_rendered
    [of "''Default Title''" sample_line "\<lparr>option_name = ''Size'', option_value = ''Small''\<rparr>"]
  by (simp add: sample_line_def sample_merchandise_def CartLineItem_def renderedOptions_Nil
      renderedOptions_Cons)

section \<open>The loader\<close>

lemma loadDeferredData_eq:
  "loadDeferredData args =
     ([''recommendedProducts'' \<mapsto>
         PromiseValue (catch_log_null (fst (query_recommended (context_storefront args))))],
      [Issued RECOMMENDED_PRODUCTS_QUERY])"
  by (simp add: loadDeferredData_def query_recommended_def)

lemma loader_eq:
  "loader args =
     (case fst (loadCriticalData args) of
        Inl e \<Rightarrow> Inl e
      | Inr c \<Rightarrow> Inr (defer_data (fst (loadDeferredData args) ++ c)),
      snd (loadDeferredData args) @ snd (loadCriticalData args))"
  by (cases "loadDeferredData args"; cases "loadCriticalData args")
    (simp add: loader_def split: sum.splits)

lemma loadCriticalData_no_handle:
  "params_handle args = None \<or> params_handle args = Some [] \<Longrightarrow>
   loadCriticalData args = (Inl (Error ''Expected product handle to be defined''), [])"
  by (auto simp: loadCriticalData_def)

lemma loadCriticalData_handle:
  "params_handle args = Some h \<Longrightarrow> h \<noteq> [] \<Longrightarrow>
   loadCriticalData args =
     (case product_response (context_storefront args) h (request_selectedOptions args) of
        Inl e \<Rightarrow> Inl e
      | Inr d \<Rightarrow>
          (case product d of
             None \<Rightarrow> Inl (Response 404)
           | Some pr \<Rightarrow>
               if product_id pr = [] then Inl (Response 404)
               else Inr [''product'' \<mapsto> ProductValue pr,
                         ''storeDomain'' \<mapsto> StringValue (shop_primaryDomain_url d)]),
      [Issued (PRODUCT_QUERY h (request_selectedOptions args)),
       Awaited (PRODUCT_QUERY h (request_selectedOptions args))])"
  by (simp add: loadCriticalData_def query_product_def await_def)

lemma loadCriticalData_events:
  "snd (loadCriticalData args) = [] \<or>
   (\<exists>h. snd (loadCriticalData args) =
      [Issued (PRODUCT_QUERY h (request_selectedOptions args)),
       Awaited (PRODUCT_QUERY h (request_selectedOptions args))])"
proof (cases "params_handle args")
  case None
  then show ?thesis by (simp add: loadCriticalData_no_handle)
next
  case (Some h)
  then show ?thesis
    by (cases "h = []") (simp_all add: loadCriticalData_no_handle loadCriticalData_handle)
qed

lemma loadCriticalData_payload:
  "fst (loadCriticalData args) = Inr c \<Longrightarrow> c ''recommendedProducts'' = None"
proof (cases "params_handle args")
  case None
  assume "fst (loadCriticalData args) = Inr c"
  with None show ?thesis by (simp add: loadCriticalData_no_handle)
next
  case (Some h)
  assume r: "fst (loadCriticalData args) = Inr c"
  show ?thesis
  proof (cases "h = []")
    case True
    with Some r show ?thesis by (simp add: loadCriticalData_no_handle)
  next
    case False
    with Some r show ?thesis
      by (auto simp: loadCriticalData_handle split: sum.splits option.splits if_splits)
  qed
qed

lemma loadCriticalData_ignores_recommended:
  "loadCriticalData
     (args\<lparr>context_storefront := (context_storefront args)\<lparr>recommended_response := answer\<rparr>\<rparr>)
   = loadCriticalData args"
  by (simp add: loadCriticalData_def query_product_def split: option.splits)

lemma catch_log_null_outcome:
  "outcome (catch_log_null p) =
     (case outcome p of Inl e \<Rightarrow> Inr None | Inr v \<Rightarrow> Inr (Some v))"
  by (simp add: catch_log_null_def split: sum.splits)

lemma catch_log_null_console:
  "console (catch_log_null p) =
     (case outcome p of Inl e \<Rightarrow> console p @ [e] | Inr v \<Rightarrow> console p)"
  by (simp add: catch_log_null_def split: sum.splits)

lemma catch_log_null_origin: "origin (catch_log_null p) = origin p"
  by (simp add: catch_log_null_def split: sum.splits)

lemma loader_payload:
  assumes "fst (loader args) = Inr r"
  shows "response_status r = 200"
    and "response_data r ''recommendedProducts'' =
           Some (PromiseValue (catch_log_null (fst (query_recommended (context_storefront args)))))"
proof -
  from assms obtain c where c: "fst (loadCriticalData args) = Inr c"
    and r: "r = defer_data (fst (loadDeferredData args) ++ c)"
    by (auto simp: loader_eq split: sum.splits)
  from r show "response_status r = 200" by (simp add: defer_data_def)
  from c have "c ''recommendedProducts'' = None" by (rule loadCriticalData_payload)
  with r show "response_data r ''recommendedProducts'' =
      Some (PromiseValue (catch_log_null (fst (query_recommended (context_storefront args)))))"
    by (simp add: defer_data_def loadDeferredData_eq map_add_def)
qed

text \<open>
  C4. In the critical phase an absent handle parameter makes \<open>loadCriticalData\<close> throw
  a generic error, and a response whose product is \<open>null\<close> or has an empty identifier
  makes it throw a response of status 404; the loader does not catch either, so the
  page request fails with the same value and returns no payload.
\<close>

theorem critical_failures:
  "(params_handle args = None \<longrightarrow>
      fst (loadCriticalData args) = Inl (Error ''Expected product handle to be defined'')
      \<and> fst (loader args) = Inl (Error ''Expected product handle to be defined''))
   \<and> (params_handle args = Some h \<and> h \<noteq> []
        \<and> product_response (context_storefront args) h (request_selectedOptions args) = Inr d
        \<and> (product d = None \<or> (\<exists>pr. product d = Some pr \<and> product_id pr = [])) \<longrightarrow>
      fst (loadCriticalData args) = Inl (Response 404)
      \<and> fst (loader args) = Inl (Response 404))
   \<and> ((\<exists>e. fst (loadCriticalData args) = Inl e) \<longrightarrow> (\<forall>r. fst (loader args) \<noteq> Inr r))"
  by (auto simp: loader_eq loadCriticalData_no_handle loadCriticalData_handle)

theorem critical_failures_witness:
  "fst (loader (sample_args None)) = Inl (Error ''Expected product handle to be defined'')
   \<and> fst (loader (sample_args (Some ''lamp''))) = Inl (Response 404)
   \<and> (\<forall>r. fst (loader (sample_args (Some ''lamp''))) \<noteq> Inr r)"
proof -
  have absent: "params_handle (sample_args None) = None"
    by (simp add: sample_args_def)
  have unknown:
    "params_handle (sample_args (Some ''lamp'')) = Some ''lamp'' \<and> ''lamp'' \<noteq> []
     \<and> product_response (context_storefront (sample_args (Some ''lamp''))) ''lamp''
          (request_selectedOptions (sample_args (Some ''lamp'')))
        = Inr \<lparr>product = None, shop_primaryDomain_url = ''https://sanarte.example''\<rparr>
     \<and> (product \<lparr>product = None, shop_primaryDomain_url = ''https://sanarte.example''\<rparr> = None
          \<or> (\<exists>pr. product \<lparr>product = None, shop_primaryDomain_url = ''https://sanarte.example''\<rparr>
                    = Some pr \<and> product_id pr = []))"
    by (simp add: sample_args_def sample_storefront_def)
  from critical_failures [of "sample_args None"] absent
  have "fst (loader (sample_args None)) = Inl (Error ''Expected product handle to be defined'')"
    by blast
  moreover from critical_failures [of "sample_args (Some ''lamp'')" "''lamp''"
      "\<lparr>product = None, shop_primaryDomain_url = ''https://sanarte.example''\<rparr>"] unknown
  have "fst (loadCriticalData (sample_args (Some ''lamp''))) = Inl (Response 404)
      \<and> fst (loader (sample_args (Some ''lamp''))) = Inl (Response 404)
      \<and> (\<forall>r. fst (loader (sample_args (Some ''lamp''))) \<noteq> Inr r)"
    by blast
  ultimately show ?thesis by simp
qed

text \<open>
  C5. Whatever the recommended-products query settles to, the promise that
  \<open>loadDeferredData\<close> puts in the payload never rejects: a rejection is written to
  the console once and replaced by \<open>null\<close>. The loader fails exactly when the critical
  phase fails, whatever the deferred query answers, and every payload the loader
  returns has this promise under \<open>recommendedProducts\<close>.
\<close>

theorem deferred_never_fails:
  "(\<forall>e. outcome (catch_log_null (fst (query_recommended storefront))) \<noteq> Inl e)
   \<and> outcome (catch_log_null (fst (query_recommended storefront))) =
       (case recommended_response storefront of
          Inl e \<Rightarrow> Inr None
        | Inr v \<Rightarrow> Inr (Some v))
   \<and> console (catch_log_null (fst (query_recommended storefront))) =
       (case recommended_response storefront of
          Inl e \<Rightarrow> [e]
        | Inr v \<Rightarrow> [])
   \<and> isl (fst (loader args)) = isl (fst (loadCriticalData args))
   \<and> isl (fst (loader (args\<lparr>context_storefront :=
              (context_storefront args)\<lparr>recommended_response := answer\<rparr>\<rparr>)))
       = isl (fst (loader args))
   \<and> (fst (loader args) = Inr r \<longrightarrow>
        response_status r = 200
        \<and> response_data r ''recommendedProducts'' =
            Some (PromiseValue (catch_log_null (fst (query_recommended (context_storefront args))))))"
proof -
  let ?p = "catch_log_null (fst (query_recommended storefront))"
  have never: "\<forall>e. outcome ?p \<noteq> Inl e"
    by (simp add: catch_log_null_outcome split: sum.splits)
  have settled: "outcome ?p =
      (case recommended_response storefront of Inl e \<Rightarrow> Inr None | Inr v \<Rightarrow> Inr (Some v))"
    by (simp add: catch_log_null_outcome query_recommended_def split: sum.splits)
  have logged: "console ?p =
      (case recommended_response storefront of Inl e \<Rightarrow> [e] | Inr v \<Rightarrow> [])"
    by (simp add: catch_log_null_console query_recommended_def split: sum.splits)
  have gate: "isl (fst (loader args)) = isl (fst (loadCriticalData args))"
    by (simp add: loader_eq split: sum.splits)
  have indep: "isl (fst (loader (args\<lparr>context_storefront :=
              (context_storefront args)\<lparr>recommended_response := answer\<rparr>\<rparr>)))
       = isl (fst (loader args))"
    by (simp add: loader_eq loadCriticalData_ignores_recommended split: sum.splits)
  have entry: "fst (loader args) = Inr r \<longrightarrow>
        response_status r = 200
        \<and> response_data r ''recommendedProducts'' =
            Some (PromiseValue (catch_log_null (fst (query_recommended (context_storefront args)))))"
    using loader_payload [of args r] by blast
  from never settled logged gate indep entry show ?thesis by blast
qed

theorem deferred_never_fails_witness:
  "outcome (catch_log_null (fst (query_recommended sample_storefront))) = Inr None
   \<and> console (catch_log_null (fst (query_recommended sample_storefront)))
       = [Error ''fetch failed'']
   \<and> \<not> isl (fst (loader (sample_args (Some ''vase''))))
   \<and> (\<exists>r. fst (loader (sample_args (Some ''vase''))) = Inr r
        \<and> response_status r = 200
        \<and> response_data r ''recommendedProducts'' =
            Some (PromiseValue \<lparr>origin = RECOMMENDED_PRODUCTS_QUERY, outcome = Inr None,
                                console = [Error ''fetch failed'']\<rparr>))"
proof -
  have rej: "recommended_response sample_storefront = Inl (Error ''fetch failed'')"
    by (simp add: sample_storefront_def)
  have crit: "fst (loadCriticalData (sample_args (Some ''vase''))) =
      Inr [''product'' \<mapsto> ProductValue vase,
           ''storeDomain'' \<mapsto> StringValue ''https://sanarte.example'']"
    by (simp add: loadCriticalData_handle [of _ "''vase''"] sample_args_def
        sample_storefront_def vase_def)
  have ok: "fst (loader (sample_args (Some ''vase''))) =
      Inr (defer_data (fst (loadDeferredData (sample_args (Some ''vase''))) ++
        [''product'' \<mapsto> ProductValue vase,
         ''storeDomain'' \<mapsto> StringValue ''https://sanarte.example'']))"
    by (simp add: loader_eq crit)
  have sf: "context_storefront (sample_args (Some ''vase'')) = sample_storefront"
    by (simp add: sample_args_def)
  have p: "catch_log_null (fst (query_recommended sample_storefront)) =
      \<lparr>origin = RECOMMENDED_PRODUCTS_QUERY, outcome = Inr None,
       console = [Error ''fetch failed'']\<rparr>"
    by (simp add: catch_log_null_def query_recommended_def sample_storefront_def)
  note inst = deferred_never_fails [of sample_storefront "sample_args (Some ''vase'')" _
      "defer_data (fst (loadDeferredData (sample_args (Some ''vase''))) ++
        [''product'' \<mapsto> ProductValue vase,
         ''storeDomain'' \<mapsto> StringValue ''https://sanarte.example''])"]
  from inst rej have
    "outcome (catch_log_null (fst (query_recommended sample_storefront))) = Inr None"
    "console (catch_log_null (fst (query_recommended sample_storefront))) = [Error ''fetch failed'']"
    by simp_all
  moreover from inst crit have "\<not> isl (fst (loader (sample_args (Some ''vase''))))"
    by simp
  moreover from inst ok sf p have
    "\<exists>r. fst (loader (sample_args (Some ''vase''))) = Inr r
        \<and> response_status r = 200
        \<and> response_data r ''recommendedProducts'' =
            Some (PromiseValue \<lparr>origin = RECOMMENDED_PRODUCTS_QUERY, outcome = Inr None,
                                console = [Error ''fetch failed'']\<rparr>)"
    by auto
  ultimately show ?thesis by blast
qed

text \<open>
  C8. The loader hands the recommended-products query to the storefront client
  first, before anything of the critical phase; the only promise it awaits is that of
  the product query, issued after the deferred one; and the payload it returns holds
  the deferred promise itself, which the loader has not awaited.
\<close>

theorem phases_overlap:
  "snd (loader args) = Issued RECOMMENDED_PRODUCTS_QUERY # snd (loadCriticalData args)
   \<and> Issued RECOMMENDED_PRODUCTS_QUERY \<notin> set (snd (loadCriticalData args))
   \<and> Awaited RECOMMENDED_PRODUCTS_QUERY \<notin> set (snd (loader args))
   \<and> (params_handle args = Some h \<and> h \<noteq> [] \<longrightarrow>
        snd (loader args) =
          [Issued RECOMMENDED_PRODUCTS_QUERY,
           Issued (PRODUCT_QUERY h (request_selectedOptions args)),
           Awaited (PRODUCT_QUERY h (request_selectedOptions args))])
   \<and> (fst (loader args) = Inr r \<longrightarrow>
        (\<exists>p. response_data r ''recommendedProducts'' = Some (PromiseValue p)
           \<and> origin p = RECOMMENDED_PRODUCTS_QUERY))"
proof -
  have first: "snd (loader args) = Issued RECOMMENDED_PRODUCTS_QUERY # snd (loadCriticalData args)"
    by (simp add: loader_eq loadDeferredData_eq)
  have crit: "Issued RECOMMENDED_PRODUCTS_QUERY \<notin> set (snd (loadCriticalData args))
      \<and> Awaited RECOMMENDED_PRODUCTS_QUERY \<notin> set (snd (loadCriticalData args))"
    using loadCriticalData_events [of args] by auto
  with first have unawaited: "Awaited RECOMMENDED_PRODUCTS_QUERY \<notin> set (snd (loader args))"
    by simp
  have order: "params_handle args = Some h \<and> h \<noteq> [] \<longrightarrow>
        snd (loader args) =
          [Issued RECOMMENDED_PRODUCTS_QUERY,
           Issued (PRODUCT_QUERY h (request_selectedOptions args)),
           Awaited (PRODUCT_QUERY h (request_selectedOptions args))]"
    using first by (simp add: loadCriticalData_handle)
  have handed: "fst (loader args) = Inr r \<longrightarrow>
        (\<exists>p. response_data r ''recommendedProducts'' = Some (PromiseValue p)
           \<and> origin p = RECOMMENDED_PRODUCTS_QUERY)"
    using loader_payload(2) [of args r]
    by (auto simp: catch_log_null_origin query_recommended_def)
  from first crit unawaited order handed show ?thesis by blast
qed

theorem phases_overlap_witness:
  "snd (loader (sample_args (Some ''vase''))) =
     [Issued RECOMMENDED_PRODUCTS_QUERY,
      Issued (PRODUCT_QUERY ''vase'' []),
      Awaited (PRODUCT_QUERY ''vase'' [])]
   \<and> (\<exists>r p. fst (loader (sample_args (Some ''vase''))) = Inr r
        \<and> response_data r ''recommendedProducts'' = Some (PromiseValue p)
        \<and> origin p = RECOMMENDED_PRODUCTS_QUERY)"
proof -
  have h: "params_handle (sample_args (Some ''vase'')) = Some ''vase'' \<and> ''vase'' \<noteq> []"
    by (simp add: sample_args_def)
  have so: "request_selectedOptions (sample_args (Some ''vase'')) = []"
    by (simp add: sample_args_def)
  have ok: "fst (loader (sample_args (Some ''vase''))) =
      Inr (defer_data (fst (loadDeferredData (sample_args (Some ''vase''))) ++
        [''product'' \<mapsto> ProductValue vase,
         ''storeDomain'' \<mapsto> StringValue ''https://sanarte.example'']))"
    by (simp add: loader_eq loadCriticalData_handle [of _ "''vase''"] sample_args_def
        sample_storefront_def vase_def)
  note inst = phases_overlap [of "sample_args (Some ''vase'')" "''vase''"
      "defer_data (fst (loadDeferredData (sample_args (Some ''vase''))) ++
        [''product'' \<mapsto> ProductValue vase,
         ''storeDomain'' \<mapsto> StringValue ''https://sanarte.example''])"]
  from inst h have "snd (loader (sample_args (Some ''vase''))) =
     [Issued RECOMMENDED_PRODUCTS_QUERY,
      Issued (PRODUCT_QUERY ''vase'' (request_selectedOptions (sample_args (Some ''vase'')))),
      Awaited (PRODUCT_QUERY ''vase'' (request_selectedOptions (sample_args (Some ''vase''))))]"
    by blast
  then have "snd (loader (sample_args (Some ''vase''))) =
     [Issued RECOMMENDED_PRODUCTS_QUERY,
      Issued (PRODUCT_QUERY ''vase'' []),
      Awaited (PRODUCT_QUERY ''vase'' [])]"
    by (simp only: so)
  moreover from inst ok have "\<exists>r p. fst (loader (sample_args (Some ''vase''))) = Inr r
        \<and> response_data r ''recommendedProducts'' = Some (PromiseValue p)
        \<and> origin p = RECOMMENDED_PRODUCTS_QUERY"
    by blast
  ultimately show ?thesis by blast
qed

end
